theory Spec2Isabelle
  imports Main "HOL-Library.Word"
begin

section \<open>Data model\<close>

text \<open>
  The embedding follows the current version of the package: \<open>strand.go\<close> with the error
  values, the context-aware functions and the \<open>Must\<close> functions, and \<open>seeded.go\<close> with the
  call-local generator of \<open>math/rand/v2\<close> and \<open>generateSeededBytes\<close>.

  A Go \<open>byte\<close> is an unsigned 8-bit integer. A Go \<open>string\<close> is an immutable sequence of
  bytes, \<open>len\<close> counts bytes and \<open>charset[i]\<close> reads the byte at index \<open>i\<close>; a charset is
  therefore a list of bytes, and \<open>string(nonce)\<close> keeps the bytes as they are.
  The parameter \<open>size\<close> is a Go \<open>int\<close>, written \<open>sz\<close> below; the code only compares
  it with \<open>0\<close> and passes it to \<open>make\<close>, so no arithmetic on it can overflow and it is
  an \<open>int\<close> here. A slice is a list, and the nil slice is \<open>None\<close>.
\<close>

type_synonym byte = "8 word"

text \<open>
  \<open>context.Context\<close> as the code observes it: \<open>ctx.Done()\<close> is ready exactly when the
  context has ended, and then \<open>ctx.Err()\<close> is \<open>context.Canceled\<close> or
  \<open>context.DeadlineExceeded\<close>. \<open>None\<close> is a context that has not ended.
\<close>

datatype ctx_err = Canceled | DeadlineExceeded

type_synonym go_context = "ctx_err option"

definition Background :: go_context where
  "Background = None"

text \<open>
  Error values. The three sentinels of \<open>strand.go\<close>, the two errors of \<open>context\<close>,
  an error reported by the operating system's entropy source, and \<open>fmt.Errorf\<close> with its
  format string and the errors it wraps with \<open>%w\<close>.
\<close>

datatype error =
    ErrInvalidSize
  | ErrEmptyCharset
  | ErrRandomFailure
  | ContextErr ctx_err
  | SourceErr string
  | Errorf string "error list"

text \<open>
  A call returns, panics, or ends the process. A panic carries an error value
  (\<open>panic(err)\<close> in the \<open>Must\<close> functions) or is one of the run-time panics the code could
  raise: integer division by zero, an index out of range, and \<open>makeslice: len out of range\<close>.
  \<open>OutOfMemory\<close> is the fatal error of the run time when the allocator cannot provide the
  bytes asked for: the call neither returns nor panics.
\<close>

datatype panic = PanicError error | DivideByZero | IndexOutOfRange | MakesliceLenOutOfRange

datatype 'a outcome = Returns 'a | Panics panic | OutOfMemory

text \<open>
  The Go run time, as far as the allocation of the buffers goes. \<open>maxAlloc\<close> is the run
  time's constant of that name, the largest size of one allocation (\<open>2^48\<close> bytes on
  linux/amd64); \<open>memAvail\<close> is the number of bytes the allocator can still provide to the
  call. Only the allocations whose size is the caller's \<open>size\<close> are counted; the small
  allocations of fixed size (an error value, the generator state) are taken to succeed.

  \<open>make([]byte, size)\<close> panics when \<open>size\<close> is negative or beyond \<open>maxAlloc\<close>, ends the
  process when the memory is not there, and gives \<open>size\<close> zero bytes otherwise.
\<close>

record go_runtime =
  maxAlloc :: nat
  memAvail :: nat

definition make_bytes :: "go_runtime \<Rightarrow> int \<Rightarrow> byte list outcome" where
  "make_bytes rt sz =
     (if sz < 0 \<or> int (maxAlloc rt) < sz then Panics MakesliceLenOutOfRange
      else if int (memAvail rt) < sz then OutOfMemory
      else Returns (replicate (nat sz) 0))"

text \<open>
  \<open>string(nonce)\<close> copies the bytes of the slice into a new string while the slice is
  still held; the nil slice and the empty slice give the empty string without an
  allocation.
\<close>

definition string_of :: "go_runtime \<Rightarrow> byte list option \<Rightarrow> byte list outcome" where
  "string_of rt nonce =
     (case nonce of
        None \<Rightarrow> Returns []
      | Some bs \<Rightarrow>
          if memAvail rt - length bs < length bs then OutOfMemory else Returns bs)"

text \<open>
  The secure entropy source \<open>crypto/rand\<close>, an external collaborator. It is a stream of
  bytes of which \<open>drawn\<close> have been consumed; \<open>fault\<close> is the error the next read reports,
  if any. \<open>rand.Read(nonce)\<close> either fills the whole buffer with the next bytes of the
  stream or reports the error.
\<close>

record entropy =
  stream :: "nat \<Rightarrow> byte"
  drawn :: nat
  fault :: "string option"

definition rand_Read :: "entropy \<Rightarrow> byte list \<Rightarrow> (string + byte list) \<times> entropy" where
  "rand_Read e nonce =
     (case fault e of
        Some msg \<Rightarrow> (Inl msg, e)
      | None \<Rightarrow>
          (Inr (map (\<lambda>i. stream e (drawn e + i)) [0..<length nonce]),
           e\<lparr>drawn := drawn e + length nonce\<rparr>))"

section \<open>The secure generator (strand.go)\<close>

text \<open>
  The loop of \<open>BytesWithContext\<close>:
  \<^verbatim>\<open>for i, b := range nonce { nonce[i] = charset[b%charsetLen] }\<close>
  with \<open>charsetLen\<close> a \<open>byte\<close>. The remainder by zero and an index beyond the charset
  are the panics of the Go run time.
\<close>

function fill_from_charset :: "byte list \<Rightarrow> byte \<Rightarrow> nat \<Rightarrow> byte list \<Rightarrow> byte list outcome" where
  "fill_from_charset charset charsetLen i nonce =
     (if i < length nonce then
        (let b = nonce ! i in
         if charsetLen = 0 then Panics DivideByZero
         else
           (let k = unat (b mod charsetLen) in
            if k < length charset
            then fill_from_charset charset charsetLen (i + 1) (nonce[i := charset ! k])
            else Panics IndexOutOfRange))
      else Returns nonce)"
  by pat_completeness auto
termination
  by (relation "measure (\<lambda>(charset, charsetLen, i, nonce). length nonce - i)") auto

declare fill_from_charset.simps [simp del]

definition BytesWithContext ::
  "go_runtime \<Rightarrow> go_context \<Rightarrow> int \<Rightarrow> byte list \<Rightarrow> entropy
     \<Rightarrow> (byte list option \<times> error option) outcome \<times> entropy" where
  "BytesWithContext rt ctx sz charset e =
     (case ctx of
        Some ce \<Rightarrow>
          (Returns (None, Some (Errorf
             ''failed to created secure random bytes due to context ending early: %w''
             [ContextErr ce])), e)
      | None \<Rightarrow>
          if sz \<le> 0 then (Returns (None, Some ErrInvalidSize), e)
          else if length charset = 0 then (Returns (None, Some ErrEmptyCharset), e)
          else
            (case make_bytes rt sz of
               Panics p \<Rightarrow> (Panics p, e)
             | OutOfMemory \<Rightarrow> (OutOfMemory, e)
             | Returns zeroed \<Rightarrow>
                 (case rand_Read e zeroed of
                    (Inl err, e') \<Rightarrow>
                      (Returns (None, Some (Errorf ''%w: %w'' [ErrRandomFailure, SourceErr err])), e')
                  | (Inr nonce, e') \<Rightarrow>
                      (case fill_from_charset charset (of_nat (length charset)) 0 nonce of
                         Panics p \<Rightarrow> (Panics p, e')
                       | OutOfMemory \<Rightarrow> (OutOfMemory, e')
                       | Returns filled \<Rightarrow> (Returns (Some filled, None), e')))))"

definition Bytes ::
  "go_runtime \<Rightarrow> int \<Rightarrow> byte list \<Rightarrow> entropy
     \<Rightarrow> (byte list option \<times> error option) outcome \<times> entropy" where
  "Bytes rt sz charset e = BytesWithContext rt Background sz charset e"

definition StringWithContext ::
  "go_runtime \<Rightarrow> go_context \<Rightarrow> int \<Rightarrow> byte list \<Rightarrow> entropy
     \<Rightarrow> (byte list \<times> error option) outcome \<times> entropy" where
  "StringWithContext rt ctx sz charset e =
     (case BytesWithContext rt ctx sz charset e of
        (Panics p, e') \<Rightarrow> (Panics p, e')
      | (OutOfMemory, e') \<Rightarrow> (OutOfMemory, e')
      | (Returns (nonce, Some err), e') \<Rightarrow> (Returns ([], Some err), e')
      | (Returns (nonce, None), e') \<Rightarrow>
          (case string_of rt nonce of
             Panics p \<Rightarrow> (Panics p, e')
           | OutOfMemory \<Rightarrow> (OutOfMemory, e')
           | Returns s \<Rightarrow> (Returns (s, None), e')))"

definition String ::
  "go_runtime \<Rightarrow> int \<Rightarrow> byte list \<Rightarrow> entropy
     \<Rightarrow> (byte list \<times> error option) outcome \<times> entropy" where
  "String rt sz charset e = StringWithContext rt Background sz charset e"

definition MustBytes ::
  "go_runtime \<Rightarrow> int \<Rightarrow> byte list \<Rightarrow> entropy \<Rightarrow> byte list option outcome \<times> entropy" where
  "MustBytes rt sz charset e =
     (case Bytes rt sz charset e of
        (Panics p, e') \<Rightarrow> (Panics p, e')
      | (OutOfMemory, e') \<Rightarrow> (OutOfMemory, e')
      | (Returns (b, Some err), e') \<Rightarrow> (Panics (PanicError err), e')
      | (Returns (b, None), e') \<Rightarrow> (Returns b, e'))"

definition MustString ::
  "go_runtime \<Rightarrow> int \<Rightarrow> byte list \<Rightarrow> entropy \<Rightarrow> byte list outcome \<times> entropy" where
  "MustString rt sz charset e =
     (case String rt sz charset e of
        (Panics p, e') \<Rightarrow> (Panics p, e')
      | (OutOfMemory, e') \<Rightarrow> (OutOfMemory, e')
      | (Returns (s, Some err), e') \<Rightarrow> (Panics (PanicError err), e')
      | (Returns (s, None), e') \<Rightarrow> (Returns s, e'))"

section \<open>The seeded generator (seeded.go)\<close>

text \<open>
  The pseudorandom source \<open>math/rand/v2\<close>, an external collaborator, is a parameter:
  \<open>NewPCG\<close> builds the generator state from two 64-bit seeds, and \<open>IntN\<close> draws from a
  state and returns the number with the next state (\<open>rng\<close> is a pointer in the source).
  Nothing is assumed about the numbers it returns: the index into the charset is checked
  as the Go run time checks it.
\<close>

record 'r rand_source =
  NewPCG :: "64 word \<Rightarrow> 64 word \<Rightarrow> 'r"
  IntN :: "'r \<Rightarrow> int \<Rightarrow> int \<times> 'r"

text \<open>
  The loop of \<open>generateSeededBytes\<close>:
  \<^verbatim>\<open>for i := range nonce { nonce[i] = charset[rng.IntN(charsetLen)] }\<close>
\<close>

function seeded_fill ::
  "('r \<Rightarrow> int \<Rightarrow> int \<times> 'r) \<Rightarrow> byte list \<Rightarrow> int \<Rightarrow> 'r \<Rightarrow> nat \<Rightarrow> byte list \<Rightarrow> byte list outcome \<times> 'r" where
  "seeded_fill intn charset charsetLen rng i nonce =
     (if i < length nonce then
        (case intn rng charsetLen of
           (k, rng') \<Rightarrow>
             if 0 \<le> k \<and> k < int (length charset)
             then seeded_fill intn charset charsetLen rng' (i + 1) (nonce[i := charset ! nat k])
             else (Panics IndexOutOfRange, rng'))
      else (Returns nonce, rng))"
  by pat_completeness auto
termination
  by (relation "measure (\<lambda>(intn, charset, charsetLen, rng, i, nonce). length nonce - i)") auto

declare seeded_fill.simps [simp del]

definition generateSeededBytes ::
  "('r \<Rightarrow> int \<Rightarrow> int \<times> 'r) \<Rightarrow> go_runtime \<Rightarrow> 'r \<Rightarrow> int \<Rightarrow> byte list
     \<Rightarrow> byte list outcome \<times> 'r" where
  "generateSeededBytes intn rt rng sz charset =
     (if sz \<le> 0 then (Returns [], rng)
      else if length charset = 0 then (make_bytes rt sz, rng)
      else
        (case make_bytes rt sz of
           Panics p \<Rightarrow> (Panics p, rng)
         | OutOfMemory \<Rightarrow> (OutOfMemory, rng)
         | Returns nonce \<Rightarrow> seeded_fill intn charset (int (length charset)) rng 0 nonce))"

text \<open>
  \<open>SeededBytes\<close>. \<open>now\<close> is the reading of \<open>time.Now().UnixNano()\<close>, \<open>seed\<close> the variadic
  argument. \<open>seedValue>>32\<close> is the arithmetic shift of an \<open>int64\<close>, and \<open>uint64(_)\<close>
  keeps the bits. The generator is local to the call and dropped at its end.
\<close>

definition SeededBytes ::
  "go_runtime \<Rightarrow> 'r rand_source \<Rightarrow> 64 word \<Rightarrow> int \<Rightarrow> byte list \<Rightarrow> 64 word list
     \<Rightarrow> byte list outcome" where
  "SeededBytes rt src now sz charset seed =
     (let seedValue = (if length seed > 0 then seed ! 0 else now);
          rng = NewPCG src seedValue (signed_drop_bit 32 seedValue)
      in fst (generateSeededBytes (IntN src) rt rng sz charset))"

definition SeededBytesWithContext ::
  "go_runtime \<Rightarrow> 'r rand_source \<Rightarrow> 64 word \<Rightarrow> go_context \<Rightarrow> int \<Rightarrow> byte list
     \<Rightarrow> 64 word list \<Rightarrow> (byte list option \<times> error option) outcome" where
  "SeededBytesWithContext rt src now ctx sz charset seed =
     (case ctx of
        Some ce \<Rightarrow>
          Returns (None, Some (Errorf
            ''failed to created seeded bytes due to context ending early: %w''
            [ContextErr ce]))
      | None \<Rightarrow>
          (case SeededBytes rt src now sz charset seed of
             Panics p \<Rightarrow> Panics p
           | OutOfMemory \<Rightarrow> OutOfMemory
           | Returns b \<Rightarrow> Returns (Some b, None)))"

definition SeededString ::
  "go_runtime \<Rightarrow> 'r rand_source \<Rightarrow> 64 word \<Rightarrow> int \<Rightarrow> byte list \<Rightarrow> 64 word list
     \<Rightarrow> byte list outcome" where
  "SeededString rt src now sz charset seed =
     (case SeededBytes rt src now sz charset seed of
        Panics p \<Rightarrow> Panics p
      | OutOfMemory \<Rightarrow> OutOfMemory
      | Returns b \<Rightarrow> string_of rt (Some b))"

definition SeededStringWithContext ::
  "go_runtime \<Rightarrow> 'r rand_source \<Rightarrow> 64 word \<Rightarrow> go_context \<Rightarrow> int \<Rightarrow> byte list
     \<Rightarrow> 64 word list \<Rightarrow> (byte list \<times> error option) outcome" where
  "SeededStringWithContext rt src now ctx sz charset seed =
     (case SeededBytesWithContext rt src now ctx sz charset seed of
        Panics p \<Rightarrow> Panics p
      | OutOfMemory \<Rightarrow> OutOfMemory
      | Returns (bytes, Some err) \<Rightarrow> Returns ([], Some err)
      | Returns (bytes, None) \<Rightarrow>
          (case string_of rt bytes of
             Panics p \<Rightarrow> Panics p
           | OutOfMemory \<Rightarrow> OutOfMemory
           | Returns str \<Rightarrow> Returns (str, None)))"

section \<open>Auxiliary facts\<close>

subsection \<open>Allocation\<close>

lemma make_bytes_ok:
  "0 \<le> sz \<Longrightarrow> sz \<le> int (maxAlloc rt) \<Longrightarrow> sz \<le> int (memAvail rt) \<Longrightarrow>
   make_bytes rt sz = Returns (replicate (nat sz) 0)"
  by (simp add: make_bytes_def)

lemma make_bytes_Returns:
  "make_bytes rt sz = Returns b \<Longrightarrow> b = replicate (nat sz) 0"
  by (simp add: make_bytes_def split: if_splits)

lemma make_bytes_too_long:
  "int (maxAlloc rt) < sz \<Longrightarrow> make_bytes rt sz = Panics MakesliceLenOutOfRange"
  by (simp add: make_bytes_def)

lemma string_of_Returns:
  "string_of rt d = Returns s \<Longrightarrow> s = (case d of None \<Rightarrow> [] | Some bs \<Rightarrow> bs)"
  by (simp add: string_of_def split: option.splits if_splits)

lemma string_of_ok:
  "2 * length bs \<le> memAvail rt \<Longrightarrow> string_of rt (Some bs) = Returns bs"
  by (simp add: string_of_def)

subsection \<open>The byte-wise reduction\<close>

lemma unat_mod_lt: "c \<noteq> 0 \<Longrightarrow> unat ((b::byte) mod c) < unat c"
  by (simp add: unat_mod unat_gt_0)

lemma unat_charsetLen_le: "unat (of_nat n :: byte) \<le> n"
  by (simp add: unat_of_nat)

lemma charsetLen_zero_iff: "(of_nat n :: byte) = 0 \<longleftrightarrow> n mod 256 = 0"
  by (simp add: word_of_nat_eq_0_iff mod_eq_0_iff_dvd)

lemma fill_from_charset_ok:
  "charsetLen \<noteq> 0 \<Longrightarrow> unat charsetLen \<le> length charset \<Longrightarrow>
   fill_from_charset charset charsetLen i nonce =
     Returns (take i nonce @ map (\<lambda>b. charset ! unat (b mod charsetLen)) (drop i nonce))"
proof (induction charset charsetLen i nonce rule: fill_from_charset.induct)
  case (1 charset charsetLen i nonce)
  show ?case
  proof (cases "i < length nonce")
    case False
    then show ?thesis by (simp add: fill_from_charset.simps [of charset charsetLen i nonce])
  next
    case True
    let ?k = "unat (nonce ! i mod charsetLen)"
    have k: "?k < length charset"
      using unat_mod_lt [OF "1.prems"(1), of "nonce ! i"] "1.prems"(2) by linarith
    have ih: "fill_from_charset charset charsetLen (i + 1) (nonce[i := charset ! ?k]) =
        Returns (take (i + 1) (nonce[i := charset ! ?k]) @
          map (\<lambda>b. charset ! unat (b mod charsetLen)) (drop (i + 1) (nonce[i := charset ! ?k])))"
      using "1.IH" [OF True refl "1.prems"(1) refl k "1.prems"] .
    have t: "take (i + 1) (nonce[i := charset ! ?k]) = take i nonce @ [charset ! ?k]"
      using True by (simp add: take_Suc_conv_app_nth)
    have d: "drop i nonce = nonce ! i # drop (i + 1) nonce"
      using True by (simp add: Cons_nth_drop_Suc)
    show ?thesis
      using True "1.prems"(1) k ih t d
      by (simp add: fill_from_charset.simps [of charset charsetLen i nonce] Let_def)
  qed
qed

lemma fill_from_charset_zero:
  "i < length nonce \<Longrightarrow> fill_from_charset charset 0 i nonce = Panics DivideByZero"
  by (simp add: fill_from_charset.simps [of charset 0 i nonce])

subsection \<open>The paths through the secure generator\<close>

lemma BytesWithContext_ended:
  "BytesWithContext rt (Some ce) sz charset e =
     (Returns (None, Some (Errorf
        ''failed to created secure random bytes due to context ending early: %w''
        [ContextErr ce])), e)"
  by (simp add: BytesWithContext_def)

lemma BytesWithContext_invalid_size:
  "sz \<le> 0 \<Longrightarrow> BytesWithContext rt None sz charset e = (Returns (None, Some ErrInvalidSize), e)"
  by (simp add: BytesWithContext_def)

lemma BytesWithContext_empty_charset:
  "0 < sz \<Longrightarrow> BytesWithContext rt None sz [] e = (Returns (None, Some ErrEmptyCharset), e)"
  by (simp add: BytesWithContext_def)

lemma BytesWithContext_no_buffer:
  "0 < sz \<Longrightarrow> charset \<noteq> [] \<Longrightarrow> make_bytes rt sz \<noteq> Returns (replicate (nat sz) 0) \<Longrightarrow>
   BytesWithContext rt None sz charset e = (Panics MakesliceLenOutOfRange, e)
   \<or> BytesWithContext rt None sz charset e = (OutOfMemory, e)"
  by (auto simp: BytesWithContext_def make_bytes_def split: if_splits)

lemma BytesWithContext_fault:
  "0 < sz \<Longrightarrow> charset \<noteq> [] \<Longrightarrow> make_bytes rt sz = Returns (replicate (nat sz) 0) \<Longrightarrow>
   fault e = Some msg \<Longrightarrow>
   BytesWithContext rt None sz charset e =
     (Returns (None, Some (Errorf ''%w: %w'' [ErrRandomFailure, SourceErr msg])), e)"
  by (simp add: BytesWithContext_def rand_Read_def)

lemma BytesWithContext_fill:
  assumes "0 < sz" and "charset \<noteq> []"
    and "make_bytes rt sz = Returns (replicate (nat sz) 0)" and "fault e = None"
    and "of_nat (length charset) \<noteq> (0::byte)"
  shows "BytesWithContext rt None sz charset e =
     (Returns (Some (map (\<lambda>i. charset ! unat (stream e (drawn e + i) mod of_nat (length charset)))
                      [0..<nat sz]), None),
      e\<lparr>drawn := drawn e + nat sz\<rparr>)"
proof -
  let ?raw = "map (\<lambda>i. stream e (drawn e + i)) [0..<nat sz]"
  have rd: "rand_Read e (replicate (nat sz) 0) = (Inr ?raw, e\<lparr>drawn := drawn e + nat sz\<rparr>)"
    using assms(4) by (simp add: rand_Read_def)
  have fill: "fill_from_charset charset (of_nat (length charset)) 0 ?raw =
      Returns (map (\<lambda>b. charset ! unat (b mod of_nat (length charset))) ?raw)"
    using fill_from_charset_ok [OF assms(5) unat_charsetLen_le, of 0 ?raw] by simp
  show ?thesis
    using assms(1,2,3) rd fill by (simp add: BytesWithContext_def comp_def)
qed

lemma BytesWithContext_div_zero:
  assumes "0 < sz" and "charset \<noteq> []"
    and "make_bytes rt sz = Returns (replicate (nat sz) 0)" and "fault e = None"
    and "of_nat (length charset) = (0::byte)"
  shows "BytesWithContext rt None sz charset e =
     (Panics DivideByZero, e\<lparr>drawn := drawn e + nat sz\<rparr>)"
proof -
  let ?raw = "map (\<lambda>i. stream e (drawn e + i)) [0..<nat sz]"
  have rd: "rand_Read e (replicate (nat sz) 0) = (Inr ?raw, e\<lparr>drawn := drawn e + nat sz\<rparr>)"
    using assms(4) by (simp add: rand_Read_def)
  have fill: "fill_from_charset charset 0 0 ?raw = Panics DivideByZero"
    using assms(1) by (intro fill_from_charset_zero) simp
  show ?thesis
    using assms(1,2,3,5) rd fill by (simp add: BytesWithContext_def)
qed

subsection \<open>Successful runs of the secure generator\<close>

lemma BytesWithContext_success:
  assumes "BytesWithContext rt ctx sz charset e = (Returns (d, None), e')"
  shows "\<exists>buf. d = Some buf \<and> int (length buf) = sz \<and> set buf \<subseteq> set charset"
proof (cases ctx)
  case (Some ce)
  with assms show ?thesis by (simp add: BytesWithContext_ended)
next
  case None
  note ctx = None
  show ?thesis
  proof (cases "sz \<le> 0")
    case True
    with assms ctx show ?thesis by (simp add: BytesWithContext_invalid_size)
  next
    case False
    then have sz: "0 < sz" by simp
    show ?thesis
    proof (cases "charset = []")
      case True
      with assms ctx sz show ?thesis by (simp add: BytesWithContext_empty_charset)
    next
      case False
      note cs = False
      show ?thesis
      proof (cases "make_bytes rt sz = Returns (replicate (nat sz) 0)")
        case False
        with assms ctx sz cs BytesWithContext_no_buffer [OF sz cs False, of e]
        show ?thesis by auto
      next
        case True
        note mk = True
        show ?thesis
        proof (cases "fault e")
          case (Some msg)
          with assms ctx sz cs mk show ?thesis by (simp add: BytesWithContext_fault)
        next
          case None
          note ok = None
          show ?thesis
          proof (cases "of_nat (length charset) = (0::byte)")
            case True
            with assms ctx sz cs mk ok show ?thesis by (simp add: BytesWithContext_div_zero)
          next
            case False
            let ?c = "of_nat (length charset) :: byte"
            let ?buf = "map (\<lambda>i. charset ! unat (stream e (drawn e + i) mod ?c)) [0..<nat sz]"
            have d: "d = Some ?buf"
              using assms ctx BytesWithContext_fill [OF sz cs mk ok False] by simp
            have len: "int (length ?buf) = sz" using sz by simp
            have "unat (b mod ?c) < length charset" for b
              using unat_mod_lt [OF False, of b] unat_charsetLen_le [of "length charset"]
              by linarith
            then have mem: "set ?buf \<subseteq> set charset" by auto
            from d len mem show ?thesis by blast
          qed
        qed
      qed
    qed
  qed
qed

lemma StringWithContext_success:
  assumes "StringWithContext rt ctx sz charset e = (Returns (s, None), e')"
  shows "int (length s) = sz \<and> set s \<subseteq> set charset"
proof -
  from assms obtain d where b: "BytesWithContext rt ctx sz charset e = (Returns (d, None), e')"
    and s: "string_of rt d = Returns s"
    by (auto simp: StringWithContext_def split: prod.splits outcome.splits option.splits)
  from BytesWithContext_success [OF b] string_of_Returns [OF s] show ?thesis by auto
qed

subsection \<open>Ended contexts, the seeded generator\<close>

lemma StringWithContext_ended:
  "StringWithContext rt (Some ce) sz charset e =
     (Returns ([], Some (Errorf
        ''failed to created secure random bytes due to context ending early: %w''
        [ContextErr ce])), e)"
  by (simp add: StringWithContext_def BytesWithContext_ended)

lemma SeededBytes_seed:
  "SeededBytes rt src now sz charset (seed # rest) =
     fst (generateSeededBytes (IntN src) rt (NewPCG src seed (signed_drop_bit 32 seed)) sz charset)"
  by (simp add: SeededBytes_def)

lemma SeededBytes_invalid_size:
  "sz \<le> 0 \<Longrightarrow> SeededBytes rt src now sz charset seed = Returns []"
  by (simp add: SeededBytes_def generateSeededBytes_def Let_def)

lemma SeededBytes_empty_charset:
  "sz \<le> int (maxAlloc rt) \<Longrightarrow> sz \<le> int (memAvail rt) \<Longrightarrow>
   SeededBytes rt src now sz [] seed = Returns (replicate (nat sz) 0)"
  by (simp add: SeededBytes_def generateSeededBytes_def Let_def make_bytes_def)

lemma generateSeededBytes_Returns_same:
  assumes "fst (generateSeededBytes intn rt rng sz charset) = Returns a"
    and "fst (generateSeededBytes intn rt' rng sz charset) = Returns b"
  shows "a = b"
proof (cases "sz \<le> 0 \<or> charset = []")
  case True
  with assms show ?thesis
    by (auto simp: generateSeededBytes_def dest: make_bytes_Returns split: if_splits)
next
  case False
  with assms obtain n n' where "make_bytes rt sz = Returns n" and "make_bytes rt' sz = Returns n'"
    and a: "fst (seeded_fill intn charset (int (length charset)) rng 0 n) = Returns a"
    and b: "fst (seeded_fill intn charset (int (length charset)) rng 0 n') = Returns b"
    by (auto simp: generateSeededBytes_def split: outcome.splits)
  then have "n = n'" by (auto dest: make_bytes_Returns)
  with a b show ?thesis by simp
qed

lemma SeededBytes_Returns_same:
  assumes "SeededBytes rt src now sz charset (seed # rest) = Returns a"
    and "SeededBytes rt' src now' sz charset (seed # rest') = Returns b"
  shows "a = b"
  using assms unfolding SeededBytes_seed by (rule generateSeededBytes_Returns_same)

lemma SeededString_Returns:
  "SeededString rt src now sz charset seed = Returns s \<Longrightarrow>
   SeededBytes rt src now sz charset seed = Returns s"
  by (auto simp: SeededString_def dest: string_of_Returns split: outcome.splits)

lemma BytesWithContext_error:
  assumes "BytesWithContext rt ctx sz charset e = (Returns (d, Some err), e')"
  shows "d = None"
  using assms
  by (auto simp: BytesWithContext_def split: option.splits if_splits prod.splits sum.splits outcome.splits)

text \<open>
  For a charset of fewer than 256 bytes the conversion \<open>byte(len(charset))\<close> loses nothing,
  and the reduction is the remainder by the length of the charset.
\<close>

lemma secure_mapping_byte_sized_charset:
  assumes "0 < sz" and "charset \<noteq> []" and "length charset < 256"
    and "make_bytes rt sz = Returns (replicate (nat sz) 0)" and "fault e = None"
  shows "BytesWithContext rt None sz charset e =
     (Returns (Some (map (\<lambda>i. charset ! (unat (stream e (drawn e + i)) mod length charset))
                      [0..<nat sz]), None),
      e\<lparr>drawn := drawn e + nat sz\<rparr>)"
proof -
  have u: "unat (of_nat (length charset) :: byte) = length charset"
    using assms(3) by (simp add: unat_of_nat)
  then have nz: "of_nat (length charset) \<noteq> (0::byte)"
    using assms(2) by (metis length_0_conv unat_0)
  show ?thesis
    using BytesWithContext_fill [OF assms(1,2,4,5) nz] u by (simp add: unat_mod)
qed

section \<open>Claims\<close>

text \<open>
  C1. For every size greater than zero and every non-empty charset, when the secure
  generators \<open>BytesWithContext\<close>, \<open>Bytes\<close>, \<open>StringWithContext\<close> and \<open>String\<close> return
  without an error, the returned buffer (or string) has exactly \<open>size\<close> elements and each
  of them occurs in the charset.
\<close>

theorem secure_output_length_and_membership:
  assumes "0 < sz" and "charset \<noteq> []"
  shows "(BytesWithContext rt ctx sz charset e = (Returns (d, None), e') \<longrightarrow>
            (\<exists>buf. d = Some buf \<and> int (length buf) = sz \<and> set buf \<subseteq> set charset))
       \<and> (Bytes rt sz charset e = (Returns (d, None), e') \<longrightarrow>
            (\<exists>buf. d = Some buf \<and> int (length buf) = sz \<and> set buf \<subseteq> set charset))
       \<and> (StringWithContext rt ctx sz charset e = (Returns (s, None), e') \<longrightarrow>
            int (length s) = sz \<and> set s \<subseteq> set charset)
       \<and> (String rt sz charset e = (Returns (s, None), e') \<longrightarrow>
            int (length s) = sz \<and> set s \<subseteq> set charset)"
  using BytesWithContext_success StringWithContext_success
  unfolding Bytes_def String_def by blast

theorem secure_output_length_and_membership_witness:
  "0 < (3::int) \<and> [65, 66, 67] \<noteq> ([]::byte list)
   \<and> BytesWithContext \<lparr>maxAlloc = 281474976710656, memAvail = 1073741824\<rparr> None 3 [65, 66, 67] \<lparr>stream = of_nat, drawn = 0, fault = None\<rparr> = (Returns (Some [65, 66, 67], None), \<lparr>stream = of_nat, drawn = 3, fault = None\<rparr>)
   \<and> Bytes \<lparr>maxAlloc = 281474976710656, memAvail = 1073741824\<rparr> 3 [65, 66, 67] \<lparr>stream = of_nat, drawn = 0, fault = None\<rparr> = (Returns (Some [65, 66, 67], None), \<lparr>stream = of_nat, drawn = 3, fault = None\<rparr>)
   \<and> StringWithContext \<lparr>maxAlloc = 281474976710656, memAvail = 1073741824\<rparr> None 3 [65, 66, 67] \<lparr>stream = of_nat, drawn = 0, fault = None\<rparr> = (Returns ([65, 66, 67], None), \<lparr>stream = of_nat, drawn = 3, fault = None\<rparr>)
   \<and> String \<lparr>maxAlloc = 281474976710656, memAvail = 1073741824\<rparr> 3 [65, 66, 67] \<lparr>stream = of_nat, drawn = 0, fault = None\<rparr> = (Returns ([65, 66, 67], None), \<lparr>stream = of_nat, drawn = 3, fault = None\<rparr>)
   \<and> int (length [65, 66, 67 :: byte]) = 3 \<and> set [65, 66, 67 :: byte] \<subseteq> set [65, 66, 67]"
  using secure_output_length_and_membership
    [of 3 "[65, 66, 67]" "\<lparr>maxAlloc = 281474976710656, memAvail = 1073741824\<rparr>" None "\<lparr>stream = of_nat, drawn = 0, fault = None\<rparr>" "Some [65, 66, 67]" "\<lparr>stream = of_nat, drawn = 3, fault = None\<rparr>" "[65, 66, 67]"]
  by (simp add: Bytes_def String_def StringWithContext_def Background_def
        BytesWithContext_fill make_bytes_def string_of_def upt_rec)

text \<open>
  C2. With the seed passed explicitly, the output of \<open>SeededBytes\<close> and \<open>SeededString\<close> is
  determined by the size, the charset and the seed: it is the same whatever the clock reads
  and whatever follows the first seed in the variadic argument, and it is the fill of a
  generator built from that seed alone (the generator is local to the call, so no earlier
  call can reach it). Two calls that both return give the same bytes also when the memory
  available to them differs.
\<close>

theorem seeded_determinism:
  "SeededBytes rt src now sz charset (seed # rest) =
     SeededBytes rt src now' sz charset (seed # rest')
   \<and> SeededString rt src now sz charset (seed # rest) =
     SeededString rt src now' sz charset (seed # rest')
   \<and> SeededBytes rt src now sz charset (seed # rest) =
       fst (generateSeededBytes (IntN src) rt (NewPCG src seed (signed_drop_bit 32 seed)) sz charset)
   \<and> (SeededBytes rt src now sz charset (seed # rest) = Returns a
        \<and> SeededBytes rt' src now' sz charset (seed # rest') = Returns b \<longrightarrow> a = b)
   \<and> (SeededString rt src now sz charset (seed # rest) = Returns a
        \<and> SeededString rt' src now' sz charset (seed # rest') = Returns b \<longrightarrow> a = b)"
proof -
  have 1: "SeededBytes rt src now sz charset (seed # rest) =
      SeededBytes rt src now' sz charset (seed # rest')"
    by (simp add: SeededBytes_seed)
  have 2: "SeededString rt src now sz charset (seed # rest) =
      SeededString rt src now' sz charset (seed # rest')"
    by (simp add: SeededString_def SeededBytes_seed)
  have 4: "SeededBytes rt src now sz charset (seed # rest) = Returns a
        \<and> SeededBytes rt' src now' sz charset (seed # rest') = Returns b \<longrightarrow> a = b"
    using SeededBytes_Returns_same by blast
  have 5: "SeededString rt src now sz charset (seed # rest) = Returns a
        \<and> SeededString rt' src now' sz charset (seed # rest') = Returns b \<longrightarrow> a = b"
    using SeededBytes_Returns_same SeededString_Returns by blast
  from 1 2 4 5 show ?thesis by (simp add: SeededBytes_seed)
qed

theorem seeded_determinism_witness:
  "SeededBytes \<lparr>maxAlloc = 281474976710656, memAvail = 1073741824\<rparr> \<lparr>NewPCG = (\<lambda>hi lo. hi + lo), IntN = (\<lambda>r n. (uint r mod n, r + 1))\<rparr> 0 3 [65, 66, 67] [42] = Returns [65, 66, 67]
   \<and> SeededBytes \<lparr>maxAlloc = 281474976710656, memAvail = 64\<rparr> \<lparr>NewPCG = (\<lambda>hi lo. hi + lo), IntN = (\<lambda>r n. (uint r mod n, r + 1))\<rparr> 1 3 [65, 66, 67] [42, 7] = Returns [65, 66, 67]
   \<and> SeededString \<lparr>maxAlloc = 281474976710656, memAvail = 1073741824\<rparr> \<lparr>NewPCG = (\<lambda>hi lo. hi + lo), IntN = (\<lambda>r n. (uint r mod n, r + 1))\<rparr> 0 3 [65, 66, 67] [42] = Returns [65, 66, 67]
   \<and> SeededString \<lparr>maxAlloc = 281474976710656, memAvail = 64\<rparr> \<lparr>NewPCG = (\<lambda>hi lo. hi + lo), IntN = (\<lambda>r n. (uint r mod n, r + 1))\<rparr> 1 3 [65, 66, 67] [42, 7] = Returns [65, 66, 67]"
proof -
  have f: "seeded_fill (\<lambda>r n. (uint r mod n, r + 1)) [65, 66, 67] 3 (42::64 word) 0 [0, 0, 0] =
      (Returns [65, 66, 67], 45)"
    by (simp add: seeded_fill.simps)
  have s: "signed_drop_bit 32 (42::64 word) = 0"
    by simp
  have b1: "SeededBytes \<lparr>maxAlloc = 281474976710656, memAvail = 1073741824\<rparr> \<lparr>NewPCG = (\<lambda>hi lo. hi + lo), IntN = (\<lambda>r n. (uint r mod n, r + 1))\<rparr> 0 3 [65, 66, 67] [42] = Returns [65, 66, 67]"
    using f s by (simp add: SeededBytes_def generateSeededBytes_def make_bytes_def numeral_3_eq_3)
  have b2: "SeededBytes \<lparr>maxAlloc = 281474976710656, memAvail = 64\<rparr> \<lparr>NewPCG = (\<lambda>hi lo. hi + lo), IntN = (\<lambda>r n. (uint r mod n, r + 1))\<rparr> 1 3 [65, 66, 67] [42, 7] = Returns [65, 66, 67]"
    using f s by (simp add: SeededBytes_def generateSeededBytes_def make_bytes_def numeral_3_eq_3)
  show ?thesis
    using b1 b2
      seeded_determinism [of "\<lparr>maxAlloc = 281474976710656, memAvail = 1073741824\<rparr>" "\<lparr>NewPCG = (\<lambda>hi lo. hi + lo), IntN = (\<lambda>r n. (uint r mod n, r + 1))\<rparr>" 0 3 "[65, 66, 67]" 42 "[]" 1 "[7]" "[65, 66, 67]" "\<lparr>maxAlloc = 281474976710656, memAvail = 64\<rparr>" "[65, 66, 67]"]
    by (simp add: SeededString_def string_of_def)
qed

text \<open>
  C3. The claim is that the secure generator maps a raw byte \<open>b\<close> to
  \<open>charset[b mod len(charset)]\<close> with the full length of the charset. The code reduces by
  \<open>byte(len(charset))\<close>: for the 257-byte charset \<open>0x00, 0x01, \<dots>, 0xff, 0x00\<close> and the raw
  byte \<open>5\<close> it returns \<open>charset[5 % 1] = charset[0] = 0x00\<close>, where the claim gives
  \<open>charset[5 mod 257] = 0x05\<close>.
\<close>

theorem secure_mapping_truncates_charset_length:
  "BytesWithContext \<lparr>maxAlloc = 281474976710656, memAvail = 1073741824\<rparr> None 1 (map of_nat [0..<257]) \<lparr>stream = (\<lambda>i. 5), drawn = 0, fault = None\<rparr> = (Returns (Some [0], None), \<lparr>stream = (\<lambda>i. 5), drawn = 1, fault = None\<rparr>)
   \<and> (map of_nat [0..<257] :: byte list)
        ! (unat (5::byte) mod length (map of_nat [0..<257] :: byte list)) = 5"
proof -
  have nz: "of_nat (length (map of_nat [0..<257] :: byte list)) \<noteq> (0::byte)"
    by simp
  have mk: "make_bytes \<lparr>maxAlloc = 281474976710656, memAvail = 1073741824\<rparr> 1 = Returns (replicate (nat 1) 0)"
    by (simp add: make_bytes_def)
  have "BytesWithContext \<lparr>maxAlloc = 281474976710656, memAvail = 1073741824\<rparr> None 1 (map of_nat [0..<257]) \<lparr>stream = (\<lambda>i. 5), drawn = 0, fault = None\<rparr> = (Returns (Some [0], None), \<lparr>stream = (\<lambda>i. 5), drawn = 1, fault = None\<rparr>)"
    using BytesWithContext_fill [of 1 "map of_nat [0..<257]" "\<lparr>maxAlloc = 281474976710656, memAvail = 1073741824\<rparr>" "\<lparr>stream = (\<lambda>i. 5), drawn = 0, fault = None\<rparr>", OF _ _ mk _ nz]
    by (simp add: nth_Cons')
  moreover have "(map of_nat [0..<257] :: byte list)
        ! (unat (5::byte) mod length (map of_nat [0..<257] :: byte list)) = 5"
    by simp
  ultimately show ?thesis by simp
qed

text \<open>
  C4, as stated, asks for \<open>EmptyCharset\<close> on every call with an empty charset. The size is
  checked first: with size \<open>0\<close> and an empty charset the error is \<open>InvalidSize\<close>.
\<close>

theorem secure_validation_counterexample:
  "Bytes \<lparr>maxAlloc = 281474976710656, memAvail = 1073741824\<rparr> 0 [] \<lparr>stream = of_nat, drawn = 0, fault = None\<rparr> = (Returns (None, Some ErrInvalidSize), \<lparr>stream = of_nat, drawn = 0, fault = None\<rparr>)
   \<and> String \<lparr>maxAlloc = 281474976710656, memAvail = 1073741824\<rparr> 0 [] \<lparr>stream = of_nat, drawn = 0, fault = None\<rparr> = (Returns ([], Some ErrInvalidSize), \<lparr>stream = of_nat, drawn = 0, fault = None\<rparr>)
   \<and> ErrInvalidSize \<noteq> ErrEmptyCharset"
  by (simp add: Bytes_def String_def StringWithContext_def Background_def
        BytesWithContext_invalid_size)

text \<open>
  C4, amended. On the secure path (byte and string forms, context not ended) a call with
  size at most zero fails with \<open>ErrInvalidSize\<close>, whatever the charset, and a call with a
  positive size and an empty charset fails with \<open>ErrEmptyCharset\<close>; in both cases the
  entropy source is left as it was: no byte has been drawn.
\<close>

theorem secure_validation_before_draw:
  "(sz \<le> 0 \<longrightarrow>
      Bytes rt sz charset e = (Returns (None, Some ErrInvalidSize), e)
    \<and> String rt sz charset e = (Returns ([], Some ErrInvalidSize), e)
    \<and> BytesWithContext rt None sz charset e = (Returns (None, Some ErrInvalidSize), e)
    \<and> StringWithContext rt None sz charset e = (Returns ([], Some ErrInvalidSize), e))
 \<and> (0 < sz \<longrightarrow>
      Bytes rt sz [] e = (Returns (None, Some ErrEmptyCharset), e)
    \<and> String rt sz [] e = (Returns ([], Some ErrEmptyCharset), e)
    \<and> BytesWithContext rt None sz [] e = (Returns (None, Some ErrEmptyCharset), e)
    \<and> StringWithContext rt None sz [] e = (Returns ([], Some ErrEmptyCharset), e))"
  by (simp add: Bytes_def String_def StringWithContext_def Background_def
        BytesWithContext_invalid_size BytesWithContext_empty_charset)

theorem secure_validation_before_draw_witness:
  "(0::int) \<le> 0
   \<and> Bytes \<lparr>maxAlloc = 281474976710656, memAvail = 1073741824\<rparr> 0 [65, 66, 67] \<lparr>stream = of_nat, drawn = 0, fault = None\<rparr> = (Returns (None, Some ErrInvalidSize), \<lparr>stream = of_nat, drawn = 0, fault = None\<rparr>)
   \<and> String \<lparr>maxAlloc = 281474976710656, memAvail = 1073741824\<rparr> 0 [65, 66, 67] \<lparr>stream = of_nat, drawn = 0, fault = None\<rparr> = (Returns ([], Some ErrInvalidSize), \<lparr>stream = of_nat, drawn = 0, fault = None\<rparr>)
   \<and> (0::int) < 5
   \<and> Bytes \<lparr>maxAlloc = 281474976710656, memAvail = 1073741824\<rparr> 5 [] \<lparr>stream = of_nat, drawn = 0, fault = None\<rparr> = (Returns (None, Some ErrEmptyCharset), \<lparr>stream = of_nat, drawn = 0, fault = None\<rparr>)
   \<and> String \<lparr>maxAlloc = 281474976710656, memAvail = 1073741824\<rparr> 5 [] \<lparr>stream = of_nat, drawn = 0, fault = None\<rparr> = (Returns ([], Some ErrEmptyCharset), \<lparr>stream = of_nat, drawn = 0, fault = None\<rparr>)"
  using secure_validation_before_draw [of 0 "\<lparr>maxAlloc = 281474976710656, memAvail = 1073741824\<rparr>" "[65, 66, 67]" "\<lparr>stream = of_nat, drawn = 0, fault = None\<rparr>"]
    secure_validation_before_draw [of 5 "\<lparr>maxAlloc = 281474976710656, memAvail = 1073741824\<rparr>" "[]" "\<lparr>stream = of_nat, drawn = 0, fault = None\<rparr>"]
  by simp

text \<open>
  C5. When the context has already ended (canceled or deadline exceeded), each of
  \<open>BytesWithContext\<close>, \<open>StringWithContext\<close>, \<open>SeededBytesWithContext\<close> and
  \<open>SeededStringWithContext\<close> returns the nil slice (or the empty string) with an error that
  wraps the context's own error, for every size, charset, seed and clock reading; the
  entropy source is left as it was, and the result does not depend on the pseudorandom
  source.
\<close>

theorem ended_context_precedence:
  "BytesWithContext rt (Some ce) sz charset e =
     (Returns (None, Some (Errorf
        ''failed to created secure random bytes due to context ending early: %w''
        [ContextErr ce])), e)
   \<and> StringWithContext rt (Some ce) sz charset e =
     (Returns ([], Some (Errorf
        ''failed to created secure random bytes due to context ending early: %w''
        [ContextErr ce])), e)
   \<and> SeededBytesWithContext rt src now (Some ce) sz charset seed =
     Returns (None, Some (Errorf
        ''failed to created seeded bytes due to context ending early: %w''
        [ContextErr ce]))
   \<and> SeededStringWithContext rt src now (Some ce) sz charset seed =
     Returns ([], Some (Errorf
        ''failed to created seeded bytes due to context ending early: %w''
        [ContextErr ce]))"
  by (simp add: BytesWithContext_ended StringWithContext_ended
        SeededBytesWithContext_def SeededStringWithContext_def)

text \<open>
  C6, as stated, has \<open>BytesWithContext\<close> panic for every positive size and every charset
  whose length is a positive multiple of 256. With a context that has already ended the
  call returns the context error before it reaches the reduction.
\<close>

theorem charset_multiple_of_256_counterexample:
  "(0::int) < 1 \<and> length (replicate 256 (65::byte)) = 256
   \<and> BytesWithContext \<lparr>maxAlloc = 281474976710656, memAvail = 1073741824\<rparr> (Some Canceled) 1 (replicate 256 65) \<lparr>stream = of_nat, drawn = 0, fault = None\<rparr> =
       (Returns (None, Some (Errorf
          ''failed to created secure random bytes due to context ending early: %w''
          [ContextErr Canceled])), \<lparr>stream = of_nat, drawn = 0, fault = None\<rparr>)"
  by (simp add: BytesWithContext_ended)

text \<open>
  C6, amended. For every positive size that \<open>make\<close> can allocate (the size is within
  \<open>maxAlloc\<close> and within the memory available) and every charset whose length is a
  positive multiple of 256, when the context has not ended and the entropy source delivers
  the bytes, \<open>BytesWithContext\<close> and \<open>Bytes\<close> neither return a value nor an error:
  \<open>byte(len(charset))\<close> is zero and the remainder by it panics, after the bytes were drawn.
\<close>

theorem charset_multiple_of_256_panics:
  assumes "0 < sz" and "sz \<le> int (maxAlloc rt)" and "sz \<le> int (memAvail rt)"
    and "0 < length charset" and "length charset mod 256 = 0"
    and "fault e = None"
  shows "BytesWithContext rt None sz charset e =
           (Panics DivideByZero, e\<lparr>drawn := drawn e + nat sz\<rparr>)
       \<and> Bytes rt sz charset e = (Panics DivideByZero, e\<lparr>drawn := drawn e + nat sz\<rparr>)"
proof -
  have z: "of_nat (length charset) = (0::byte)"
    using assms(5) by (simp add: charsetLen_zero_iff)
  have ne: "charset \<noteq> []" using assms(4) by auto
  have mk: "make_bytes rt sz = Returns (replicate (nat sz) 0)"
    using assms(1,2,3) by (simp add: make_bytes_ok)
  show ?thesis
    using BytesWithContext_div_zero [OF assms(1) ne mk assms(6) z]
    by (simp add: Bytes_def Background_def)
qed

theorem charset_multiple_of_256_panics_witness:
  "(0::int) < 1 \<and> 1 \<le> int (maxAlloc \<lparr>maxAlloc = 281474976710656, memAvail = 1073741824\<rparr>) \<and> 1 \<le> int (memAvail \<lparr>maxAlloc = 281474976710656, memAvail = 1073741824\<rparr>)
   \<and> 0 < length (replicate 256 (65::byte))
   \<and> length (replicate 256 (65::byte)) mod 256 = 0
   \<and> fault \<lparr>stream = of_nat, drawn = 0, fault = None\<rparr> = None
   \<and> BytesWithContext \<lparr>maxAlloc = 281474976710656, memAvail = 1073741824\<rparr> None 1 (replicate 256 65) \<lparr>stream = of_nat, drawn = 0, fault = None\<rparr> = (Panics DivideByZero, \<lparr>stream = of_nat, drawn = 1, fault = None\<rparr>)
   \<and> Bytes \<lparr>maxAlloc = 281474976710656, memAvail = 1073741824\<rparr> 1 (replicate 256 65) \<lparr>stream = of_nat, drawn = 0, fault = None\<rparr> = (Panics DivideByZero, \<lparr>stream = of_nat, drawn = 1, fault = None\<rparr>)"
  using charset_multiple_of_256_panics [of 1 "\<lparr>maxAlloc = 281474976710656, memAvail = 1073741824\<rparr>" "replicate 256 65" "\<lparr>stream = of_nat, drawn = 0, fault = None\<rparr>"]
  by simp

text \<open>
  C7, as stated, has \<open>SeededBytes\<close> return for every size when the charset is empty. A
  size beyond \<open>maxAlloc\<close> makes \<open>make([]byte, size)\<close> panic: with size \<open>2^63 - 1\<close> the call
  panics with \<open>makeslice: len out of range\<close>.
\<close>

theorem seeded_empty_charset_counterexample:
  "SeededBytes \<lparr>maxAlloc = 281474976710656, memAvail = 1073741824\<rparr> \<lparr>NewPCG = (\<lambda>hi lo. hi + lo), IntN = (\<lambda>r n. (uint r mod n, r + 1))\<rparr> 0 9223372036854775807 [] [42] = Panics MakesliceLenOutOfRange
   \<and> SeededString \<lparr>maxAlloc = 281474976710656, memAvail = 1073741824\<rparr> \<lparr>NewPCG = (\<lambda>hi lo. hi + lo), IntN = (\<lambda>r n. (uint r mod n, r + 1))\<rparr> 0 9223372036854775807 [] [42] = Panics MakesliceLenOutOfRange"
  by (simp add: SeededString_def SeededBytes_def generateSeededBytes_def make_bytes_def)

text \<open>
  C7, amended. With an empty charset and a size whose buffer can be allocated (the size is
  within \<open>maxAlloc\<close> and within the memory available, twice the size for \<open>SeededString\<close>,
  which copies the buffer), \<open>SeededBytes\<close> and \<open>SeededString\<close> return without a panic and
  without reading the charset: the result is \<open>nat size\<close> zero bytes, that is a buffer of
  length \<open>size\<close> filled with zero bytes when the size is positive, and empty otherwise.
\<close>

theorem seeded_empty_charset_within_allocation:
  "(sz \<le> int (maxAlloc rt) \<and> sz \<le> int (memAvail rt) \<longrightarrow>
      SeededBytes rt src now sz [] seed = Returns (replicate (nat sz) 0))
   \<and> (sz \<le> int (maxAlloc rt) \<and> 2 * sz \<le> int (memAvail rt) \<longrightarrow>
      SeededString rt src now sz [] seed = Returns (replicate (nat sz) 0))
   \<and> (0 < sz \<longrightarrow> int (length (replicate (nat sz) (0::byte))) = sz)"
proof -
  have b: "SeededBytes rt src now sz [] seed = Returns (replicate (nat sz) 0)"
    if "sz \<le> int (maxAlloc rt)" and "sz \<le> int (memAvail rt)"
    using that by (rule SeededBytes_empty_charset)
  have s: "SeededString rt src now sz [] seed = Returns (replicate (nat sz) 0)"
    if m: "sz \<le> int (maxAlloc rt)" and a: "2 * sz \<le> int (memAvail rt)"
  proof -
    have le: "sz \<le> int (memAvail rt)" using a by linarith
    have c: "2 * length (replicate (nat sz) (0::byte)) \<le> memAvail rt" using a by simp
    show ?thesis
      using b [OF m le] string_of_ok [OF c] by (simp add: SeededString_def)
  qed
  from b s show ?thesis by simp
qed

theorem seeded_empty_charset_within_allocation_witness:
  "(3::int) \<le> int (maxAlloc \<lparr>maxAlloc = 281474976710656, memAvail = 1073741824\<rparr>) \<and> 3 \<le> int (memAvail \<lparr>maxAlloc = 281474976710656, memAvail = 1073741824\<rparr>) \<and> 2 * 3 \<le> int (memAvail \<lparr>maxAlloc = 281474976710656, memAvail = 1073741824\<rparr>)
   \<and> SeededBytes \<lparr>maxAlloc = 281474976710656, memAvail = 1073741824\<rparr> \<lparr>NewPCG = (\<lambda>hi lo. hi + lo), IntN = (\<lambda>r n. (uint r mod n, r + 1))\<rparr> 0 3 [] [42] = Returns [0, 0, 0]
   \<and> SeededString \<lparr>maxAlloc = 281474976710656, memAvail = 1073741824\<rparr> \<lparr>NewPCG = (\<lambda>hi lo. hi + lo), IntN = (\<lambda>r n. (uint r mod n, r + 1))\<rparr> 0 3 [] [42] = Returns [0, 0, 0]
   \<and> (0::int) < 3 \<and> int (length (replicate (nat 3) (0::byte))) = 3"
  using seeded_empty_charset_within_allocation [of 3 "\<lparr>maxAlloc = 281474976710656, memAvail = 1073741824\<rparr>" "\<lparr>NewPCG = (\<lambda>hi lo. hi + lo), IntN = (\<lambda>r n. (uint r mod n, r + 1))\<rparr>" 0 "[42]"]
  by (simp add: numeral_3_eq_3)

text \<open>
  C8. For every charset and every size at most zero, \<open>SeededBytes\<close> returns the empty
  slice and \<open>SeededString\<close> the empty string; neither panics and neither has an error
  result.
\<close>

theorem seeded_nonpositive_size_is_empty:
  assumes "sz \<le> 0"
  shows "SeededBytes rt src now sz charset seed = Returns []
       \<and> SeededString rt src now sz charset seed = Returns []"
  using assms by (simp add: SeededString_def SeededBytes_invalid_size string_of_def)

theorem seeded_nonpositive_size_is_empty_witness:
  "(-2::int) \<le> 0
   \<and> SeededBytes \<lparr>maxAlloc = 281474976710656, memAvail = 1073741824\<rparr> \<lparr>NewPCG = (\<lambda>hi lo. hi + lo), IntN = (\<lambda>r n. (uint r mod n, r + 1))\<rparr> 0 (-2) [65, 66, 67] [42] = Returns []
   \<and> SeededString \<lparr>maxAlloc = 281474976710656, memAvail = 1073741824\<rparr> \<lparr>NewPCG = (\<lambda>hi lo. hi + lo), IntN = (\<lambda>r n. (uint r mod n, r + 1))\<rparr> 0 (-2) [65, 66, 67] [42] = Returns []"
  using seeded_nonpositive_size_is_empty [of "-2" "\<lparr>maxAlloc = 281474976710656, memAvail = 1073741824\<rparr>" "\<lparr>NewPCG = (\<lambda>hi lo. hi + lo), IntN = (\<lambda>r n. (uint r mod n, r + 1))\<rparr>" 0 "[65, 66, 67]" "[42]"]
  by simp

text \<open>
  C9. On the same entropy source, when \<open>Bytes\<close> (\<open>String\<close>) returns a result without an
  error, \<open>MustBytes\<close> (\<open>MustString\<close>) returns that result and leaves the source in the same
  state; when \<open>Bytes\<close> (\<open>String\<close>) returns an error, \<open>MustBytes\<close> (\<open>MustString\<close>) panics
  with that error value.
\<close>

theorem must_variants_agree:
  "(Bytes rt sz charset e = (Returns (b, None), e') \<longrightarrow>
      MustBytes rt sz charset e = (Returns b, e'))
   \<and> (Bytes rt sz charset e = (Returns (b, Some err), e') \<longrightarrow>
        MustBytes rt sz charset e = (Panics (PanicError err), e'))
   \<and> (String rt sz charset e = (Returns (s, None), e') \<longrightarrow>
        MustString rt sz charset e = (Returns s, e'))
   \<and> (String rt sz charset e = (Returns (s, Some err), e') \<longrightarrow>
        MustString rt sz charset e = (Panics (PanicError err), e'))"
  by (simp add: MustBytes_def MustString_def)

theorem must_variants_agree_witness:
  "Bytes \<lparr>maxAlloc = 281474976710656, memAvail = 1073741824\<rparr> 3 [65, 66, 67] \<lparr>stream = of_nat, drawn = 0, fault = None\<rparr> = (Returns (Some [65, 66, 67], None), \<lparr>stream = of_nat, drawn = 3, fault = None\<rparr>)
   \<and> MustBytes \<lparr>maxAlloc = 281474976710656, memAvail = 1073741824\<rparr> 3 [65, 66, 67] \<lparr>stream = of_nat, drawn = 0, fault = None\<rparr> = (Returns (Some [65, 66, 67]), \<lparr>stream = of_nat, drawn = 3, fault = None\<rparr>)
   \<and> String \<lparr>maxAlloc = 281474976710656, memAvail = 1073741824\<rparr> 3 [65, 66, 67] \<lparr>stream = of_nat, drawn = 0, fault = None\<rparr> = (Returns ([65, 66, 67], None), \<lparr>stream = of_nat, drawn = 3, fault = None\<rparr>)
   \<and> MustString \<lparr>maxAlloc = 281474976710656, memAvail = 1073741824\<rparr> 3 [65, 66, 67] \<lparr>stream = of_nat, drawn = 0, fault = None\<rparr> = (Returns [65, 66, 67], \<lparr>stream = of_nat, drawn = 3, fault = None\<rparr>)
   \<and> Bytes \<lparr>maxAlloc = 281474976710656, memAvail = 1073741824\<rparr> 0 [65, 66, 67] \<lparr>stream = of_nat, drawn = 0, fault = None\<rparr> = (Returns (None, Some ErrInvalidSize), \<lparr>stream = of_nat, drawn = 0, fault = None\<rparr>)
   \<and> MustBytes \<lparr>maxAlloc = 281474976710656, memAvail = 1073741824\<rparr> 0 [65, 66, 67] \<lparr>stream = of_nat, drawn = 0, fault = None\<rparr> = (Panics (PanicError ErrInvalidSize), \<lparr>stream = of_nat, drawn = 0, fault = None\<rparr>)
   \<and> String \<lparr>maxAlloc = 281474976710656, memAvail = 1073741824\<rparr> 0 [65, 66, 67] \<lparr>stream = of_nat, drawn = 0, fault = None\<rparr> = (Returns ([], Some ErrInvalidSize), \<lparr>stream = of_nat, drawn = 0, fault = None\<rparr>)
   \<and> MustString \<lparr>maxAlloc = 281474976710656, memAvail = 1073741824\<rparr> 0 [65, 66, 67] \<lparr>stream = of_nat, drawn = 0, fault = None\<rparr> = (Panics (PanicError ErrInvalidSize), \<lparr>stream = of_nat, drawn = 0, fault = None\<rparr>)"
proof -
  have ok: "Bytes \<lparr>maxAlloc = 281474976710656, memAvail = 1073741824\<rparr> 3 [65, 66, 67] \<lparr>stream = of_nat, drawn = 0, fault = None\<rparr> = (Returns (Some [65, 66, 67], None), \<lparr>stream = of_nat, drawn = 3, fault = None\<rparr>)"
    by (simp add: Bytes_def Background_def BytesWithContext_fill make_bytes_def upt_rec)
  have oks: "String \<lparr>maxAlloc = 281474976710656, memAvail = 1073741824\<rparr> 3 [65, 66, 67] \<lparr>stream = of_nat, drawn = 0, fault = None\<rparr> = (Returns ([65, 66, 67], None), \<lparr>stream = of_nat, drawn = 3, fault = None\<rparr>)"
    using ok by (simp add: String_def StringWithContext_def Bytes_def string_of_def)
  have bad: "Bytes \<lparr>maxAlloc = 281474976710656, memAvail = 1073741824\<rparr> 0 [65, 66, 67] \<lparr>stream = of_nat, drawn = 0, fault = None\<rparr> = (Returns (None, Some ErrInvalidSize), \<lparr>stream = of_nat, drawn = 0, fault = None\<rparr>)"
    by (simp add: Bytes_def Background_def BytesWithContext_invalid_size)
  have bads: "String \<lparr>maxAlloc = 281474976710656, memAvail = 1073741824\<rparr> 0 [65, 66, 67] \<lparr>stream = of_nat, drawn = 0, fault = None\<rparr> = (Returns ([], Some ErrInvalidSize), \<lparr>stream = of_nat, drawn = 0, fault = None\<rparr>)"
    using bad by (simp add: String_def StringWithContext_def Bytes_def)
  show ?thesis
    using ok oks bad bads
      must_variants_agree
        [of "\<lparr>maxAlloc = 281474976710656, memAvail = 1073741824\<rparr>" 3 "[65, 66, 67]" "\<lparr>stream = of_nat, drawn = 0, fault = None\<rparr>" "Some [65, 66, 67]" "\<lparr>stream = of_nat, drawn = 3, fault = None\<rparr>" _ "[65, 66, 67]"]
      must_variants_agree
        [of "\<lparr>maxAlloc = 281474976710656, memAvail = 1073741824\<rparr>" 0 "[65, 66, 67]" "\<lparr>stream = of_nat, drawn = 0, fault = None\<rparr>" None "\<lparr>stream = of_nat, drawn = 0, fault = None\<rparr>" ErrInvalidSize "[]"]
    by simp
qed

text \<open>
  C10. Whenever a generation operation with an error result (\<open>BytesWithContext\<close>,
  \<open>Bytes\<close>, \<open>StringWithContext\<close>, \<open>String\<close>, \<open>SeededBytesWithContext\<close>,
  \<open>SeededStringWithContext\<close>) returns an error, the data returned with it is the nil
  slice or the empty string.
\<close>

theorem error_means_no_data:
  "(BytesWithContext rt ctx sz charset e = (Returns (d, Some err), e') \<longrightarrow> d = None)
   \<and> (Bytes rt sz charset e = (Returns (d, Some err), e') \<longrightarrow> d = None)
   \<and> (StringWithContext rt ctx sz charset e = (Returns (s, Some err), e') \<longrightarrow> s = [])
   \<and> (String rt sz charset e = (Returns (s, Some err), e') \<longrightarrow> s = [])
   \<and> (SeededBytesWithContext rt src now ctx sz charset seed = Returns (d, Some err) \<longrightarrow> d = None)
   \<and> (SeededStringWithContext rt src now ctx sz charset seed = Returns (s, Some err) \<longrightarrow> s = [])"
proof -
  have 1: "BytesWithContext rt ctx sz charset e = (Returns (d, Some err), e') \<longrightarrow> d = None"
    using BytesWithContext_error by blast
  have 2: "Bytes rt sz charset e = (Returns (d, Some err), e') \<longrightarrow> d = None"
    unfolding Bytes_def using BytesWithContext_error by blast
  have 3: "StringWithContext rt ctx sz charset e = (Returns (s, Some err), e') \<longrightarrow> s = []" for ctx
    by (auto simp: StringWithContext_def split: prod.splits outcome.splits option.splits)
  have 4: "String rt sz charset e = (Returns (s, Some err), e') \<longrightarrow> s = []"
    unfolding String_def using 3 .
  have 5: "SeededBytesWithContext rt src now ctx sz charset seed = Returns (d, Some err) \<longrightarrow> d = None"
    by (auto simp: SeededBytesWithContext_def split: option.splits outcome.splits)
  have 6: "SeededStringWithContext rt src now ctx sz charset seed = Returns (s, Some err) \<longrightarrow> s = []"
    by (auto simp: SeededStringWithContext_def split: prod.splits outcome.splits option.splits)
  from 1 2 3 4 5 6 show ?thesis by blast
qed

theorem error_means_no_data_witness:
  "BytesWithContext \<lparr>maxAlloc = 281474976710656, memAvail = 1073741824\<rparr> None 0 [65, 66, 67] \<lparr>stream = of_nat, drawn = 0, fault = None\<rparr> = (Returns (None, Some ErrInvalidSize), \<lparr>stream = of_nat, drawn = 0, fault = None\<rparr>)
   \<and> Bytes \<lparr>maxAlloc = 281474976710656, memAvail = 1073741824\<rparr> 0 [65, 66, 67] \<lparr>stream = of_nat, drawn = 0, fault = None\<rparr> = (Returns (None, Some ErrInvalidSize), \<lparr>stream = of_nat, drawn = 0, fault = None\<rparr>)
   \<and> StringWithContext \<lparr>maxAlloc = 281474976710656, memAvail = 1073741824\<rparr> None 0 [65, 66, 67] \<lparr>stream = of_nat, drawn = 0, fault = None\<rparr> = (Returns ([], Some ErrInvalidSize), \<lparr>stream = of_nat, drawn = 0, fault = None\<rparr>)
   \<and> String \<lparr>maxAlloc = 281474976710656, memAvail = 1073741824\<rparr> 0 [65, 66, 67] \<lparr>stream = of_nat, drawn = 0, fault = None\<rparr> = (Returns ([], Some ErrInvalidSize), \<lparr>stream = of_nat, drawn = 0, fault = None\<rparr>)
   \<and> SeededBytesWithContext \<lparr>maxAlloc = 281474976710656, memAvail = 1073741824\<rparr> \<lparr>NewPCG = (\<lambda>hi lo. hi + lo), IntN = (\<lambda>r n. (uint r mod n, r + 1))\<rparr> 0 (Some Canceled) 3 [65, 66, 67] [42] =
       Returns (None, Some (Errorf
         ''failed to created seeded bytes due to context ending early: %w''
         [ContextErr Canceled]))
   \<and> SeededStringWithContext \<lparr>maxAlloc = 281474976710656, memAvail = 1073741824\<rparr> \<lparr>NewPCG = (\<lambda>hi lo. hi + lo), IntN = (\<lambda>r n. (uint r mod n, r + 1))\<rparr> 0 (Some Canceled) 3 [65, 66, 67] [42] =
       Returns ([], Some (Errorf
         ''failed to created seeded bytes due to context ending early: %w''
         [ContextErr Canceled]))"
  using error_means_no_data
      [of "\<lparr>maxAlloc = 281474976710656, memAvail = 1073741824\<rparr>" None 0 "[65, 66, 67]" "\<lparr>stream = of_nat, drawn = 0, fault = None\<rparr>" None ErrInvalidSize "\<lparr>stream = of_nat, drawn = 0, fault = None\<rparr>" "[]" "\<lparr>NewPCG = (\<lambda>hi lo. hi + lo), IntN = (\<lambda>r n. (uint r mod n, r + 1))\<rparr>" 0 "[42]"]
    error_means_no_data
      [of "\<lparr>maxAlloc = 281474976710656, memAvail = 1073741824\<rparr>" "Some Canceled" 3 "[65, 66, 67]" "\<lparr>stream = of_nat, drawn = 0, fault = None\<rparr>" None
          "Errorf ''failed to created seeded bytes due to context ending early: %w''
             [ContextErr Canceled]" "\<lparr>stream = of_nat, drawn = 0, fault = None\<rparr>" "[]" "\<lparr>NewPCG = (\<lambda>hi lo. hi + lo), IntN = (\<lambda>r n. (uint r mod n, r + 1))\<rparr>" 0 "[42]"]
  by (simp add: Bytes_def String_def StringWithContext_def Background_def
        BytesWithContext_invalid_size SeededBytesWithContext_def SeededStringWithContext_def)

end
